theory Spec2Isabelle
  imports Main
begin

text \<open>
  Package \<^verbatim>\<open>logger\<close> of comfforts/logger. The functions embedded here are those of the
  listing with \<^verbatim>\<open>Config\<close>, \<^verbatim>\<open>Init\<close>, \<^verbatim>\<open>build\<close> and \<^verbatim>\<open>defaultConfig\<close> (it follows the tests in
  \<^verbatim>\<open>logger_test.go\<close>), the listing with \<^verbatim>\<open>NewAppLogger\<close> after it, and, under the names
  \<open>GetSlogLogger_logger_go\<close> and \<open>GetSlogMultiLogger_logger_go\<close>, the earlier \<^verbatim>\<open>GetSlogLogger\<close>
  and \<^verbatim>\<open>GetSlogMultiLogger\<close> of \<^verbatim>\<open>logger.go\<close>.
\<close>

section \<open>Go values used by package logger\<close>

text \<open>
  A Go string is modelled by the sequence of its code points (runes), which is what
  \<^verbatim>\<open>strings.TrimSpace\<close> and \<^verbatim>\<open>strings.ToLower\<close> work on for text that is valid UTF-8.
  String constants of the source are written \<open>go ''...''\<close>.
\<close>

type_synonym rune = nat
type_synonym gostring = "rune list"

definition go :: "string \<Rightarrow> gostring" where
  "go s = map of_char s"

text \<open>
  The parts of the Go standard library whose tables or platform rules are outside the
  repository are taken as parameters: the case mapping of \<^verbatim>\<open>unicode.ToLower\<close> on runes
  beyond ASCII, and \<^verbatim>\<open>filepath.Join\<close> of a directory and a path.
\<close>

record stdlib =
  unicode_ToLower :: "rune \<Rightarrow> rune"
  filepath_Join :: "gostring \<Rightarrow> gostring \<Rightarrow> gostring"

text \<open>\<^verbatim>\<open>unicode.IsSpace\<close>: the Latin-1 cases and the rest of the White_Space property.\<close>

definition IsSpace :: "rune \<Rightarrow> bool" where
  "IsSpace r =
     (if r \<le> 255 then r = 9 \<or> r = 10 \<or> r = 11 \<or> r = 12 \<or> r = 13 \<or> r = 32 \<or> r = 133 \<or> r = 160
      else r = 5760 \<or> (8192 \<le> r \<and> r \<le> 8202) \<or> r = 8232 \<or> r = 8233 \<or> r = 8239
           \<or> r = 8287 \<or> r = 12288)"

definition TrimSpace :: "gostring \<Rightarrow> gostring" where
  "TrimSpace s = rev (dropWhile IsSpace (rev (dropWhile IsSpace s)))"

text \<open>\<^verbatim>\<open>unicode.ToLower\<close> on one rune: ASCII is decided in place, the rest by the case tables.\<close>

definition ToLower_rune :: "stdlib \<Rightarrow> rune \<Rightarrow> rune" where
  "ToLower_rune L r =
     (if r \<le> 127 then (if 65 \<le> r \<and> r \<le> 90 then r + 32 else r)
      else unicode_ToLower L r)"

definition ToLower :: "stdlib \<Rightarrow> gostring \<Rightarrow> gostring" where
  "ToLower L s = map (ToLower_rune L) s"

text \<open>
  \<^verbatim>\<open>filepath.Join\<close> as it is on Unix, for two elements: the elements from the first
  non-empty one on are joined by a slash and the result is cleaned. \<^verbatim>\<open>filepath.Clean\<close>
  drops empty elements and \<^verbatim>\<open>.\<close> elements, lets a \<^verbatim>\<open>..\<close> element remove the element before
  it, drops a \<^verbatim>\<open>..\<close> that would climb above the root, keeps a leading \<^verbatim>\<open>..\<close> of a path that is
  not rooted, and returns \<^verbatim>\<open>.\<close> for an empty result.
\<close>

fun split_slash :: "gostring \<Rightarrow> gostring list" where
  "split_slash [] = [[]]"
| "split_slash (c # cs) =
     (if c = 47 then [] # split_slash cs
      else (case split_slash cs of [] \<Rightarrow> [[c]] | x # xs \<Rightarrow> (c # x) # xs))"

fun join_slash :: "gostring list \<Rightarrow> gostring" where
  "join_slash [] = []"
| "join_slash [x] = x"
| "join_slash (x # y # ys) = x @ 47 # join_slash (y # ys)"

text \<open>One element of the path, with the elements kept so far, the last one first.\<close>

definition clean_step :: "bool \<Rightarrow> gostring list \<Rightarrow> gostring \<Rightarrow> gostring list" where
  "clean_step rooted out el =
     (if el = [] \<or> el = go ''.'' then out
      else if el = go ''..'' then
        (if out \<noteq> [] \<and> hd out \<noteq> go ''..'' then tl out
         else if rooted then out
         else el # out)
      else el # out)"

definition filepath_Clean :: "gostring \<Rightarrow> gostring" where
  "filepath_Clean path =
     (if path = [] then go ''.''
      else
        (let rooted = (hd path = 47);
             out = join_slash (rev (foldl (clean_step rooted) [] (split_slash path)))
         in if rooted then 47 # out
            else if out = [] then go ''.''
            else out))"

definition unix_Join :: "gostring \<Rightarrow> gostring \<Rightarrow> gostring" where
  "unix_Join a b =
     (if a \<noteq> [] then filepath_Clean (a @ 47 # b)
      else if b \<noteq> [] then filepath_Clean b
      else [])"

text \<open>
  An ordinary name of a path element: not empty, without a slash, and neither \<^verbatim>\<open>.\<close> nor
  \<^verbatim>\<open>..\<close>.
\<close>

definition plain_name :: "gostring \<Rightarrow> bool" where
  "plain_name c = (c \<noteq> [] \<and> 47 \<notin> set c \<and> c \<noteq> go ''.'' \<and> c \<noteq> go ''..'')"

text \<open>
  The process environment maps a variable name to its value when the variable is set;
  \<^verbatim>\<open>os.Getenv\<close> returns the empty string for a variable that is not set.
\<close>

type_synonym Env = "string \<Rightarrow> gostring option"

definition Getenv :: "Env \<Rightarrow> string \<Rightarrow> gostring" where
  "Getenv env k = (case env k of None \<Rightarrow> [] | Some v \<Rightarrow> v)"

section \<open>log/slog and the writers\<close>

text \<open>\<^verbatim>\<open>slog.Level\<close> is an integer; a \<^verbatim>\<open>slog.Leveler\<close> is an interface value, \<open>None\<close> when nil.\<close>

type_synonym Level = int
type_synonym Leveler = "Level option"

definition LevelDebug :: Level where "LevelDebug = - 4"
definition LevelInfo :: Level where "LevelInfo = 0"
definition LevelWarn :: Level where "LevelWarn = 4"
definition LevelError :: Level where "LevelError = 8"

record lumberjack_Logger =
  Filename :: gostring
  MaxSize :: int
  MaxBackups :: int
  MaxAge :: int
  Compress :: bool

text \<open>
  An \<^verbatim>\<open>io.Writer\<close> interface value: nil, \<^verbatim>\<open>os.Stdout\<close>, \<^verbatim>\<open>io.Discard\<close>, a lumberjack
  rotating file, or the fan-out of \<^verbatim>\<open>io.MultiWriter\<close>.
\<close>

datatype Writer =
  NilWriter
| Stdout
| Discard
| Lumberjack lumberjack_Logger
| MultiWriter "Writer list"

record HandlerOptions =
  opts_Level :: Leveler
  opts_AddSource :: bool

datatype HandlerKind = JSON | Text

record Handler =
  kind :: HandlerKind
  w :: Writer
  opts :: HandlerOptions
  preformatted :: "gostring list"

text \<open>A nil \<^verbatim>\<open>*HandlerOptions\<close> stands for the zero options.\<close>

definition handlerOptions :: "HandlerOptions option \<Rightarrow> HandlerOptions" where
  "handlerOptions ho = (case ho of None \<Rightarrow> \<lparr>opts_Level = None, opts_AddSource = False\<rparr> | Some x \<Rightarrow> x)"

definition NewJSONHandler :: "Writer \<Rightarrow> HandlerOptions option \<Rightarrow> Handler" where
  "NewJSONHandler wr ho = \<lparr>kind = JSON, w = wr, opts = handlerOptions ho, preformatted = []\<rparr>"

definition NewTextHandler :: "Writer \<Rightarrow> HandlerOptions option \<Rightarrow> Handler" where
  "NewTextHandler wr ho = \<lparr>kind = Text, w = wr, opts = handlerOptions ho, preformatted = []\<rparr>"

record slog_Logger =
  handler :: Handler

definition slog_New :: "Handler \<Rightarrow> slog_Logger" where
  "slog_New h = \<lparr>handler = h\<rparr>"

section \<open>Configuration\<close>

datatype error = errors_New gostring

definition err_Error :: "error \<Rightarrow> gostring" where
  "err_Error e = (case e of errors_New m \<Rightarrow> m)"

datatype panic = NilPointerDereference

record Config =
  Level :: Leveler
  Format :: gostring
  Writer :: Writer
  AddSource :: bool

type_synonym Option = "Config \<Rightarrow> Config"

definition WithLevel :: "Leveler \<Rightarrow> Option" where
  "WithLevel level = (\<lambda>c. c\<lparr>Level := level\<rparr>)"

definition WithFormat :: "gostring \<Rightarrow> Option" where
  "WithFormat format = (\<lambda>c. c\<lparr>Format := format\<rparr>)"

definition WithWriter :: "Writer \<Rightarrow> Option" where
  "WithWriter wr = (\<lambda>c. c\<lparr>Writer := wr\<rparr>)"

definition WithAddSource :: "bool \<Rightarrow> Option" where
  "WithAddSource add = (\<lambda>c. c\<lparr>AddSource := add\<rparr>)"

definition build :: "stdlib \<Rightarrow> Config \<Rightarrow> slog_Logger option \<times> error option" where
  "build L c =
     (let ho = \<lparr>opts_Level = Level c, opts_AddSource = AddSource c\<rparr>;
          f = ToLower L (TrimSpace (Format c));
          h = (if f = go ''json'' then NewJSONHandler (Writer c) (Some ho)
               else if f = go ''text'' \<or> f = go ''console'' then NewTextHandler (Writer c) (Some ho)
               else NewJSONHandler (Writer c) (Some ho))
      in (Some (slog_New h), None))"

definition defaultConfig :: "stdlib \<Rightarrow> Env \<Rightarrow> Config" where
  "defaultConfig L e =
     (let env = ToLower L (TrimSpace (Getenv e ''ENV''));
          goEnv = ToLower L (TrimSpace (Getenv e ''GO_ENV''));
          infra = ToLower L (TrimSpace (Getenv e ''INFRA''));
          dev = (env = go ''dev'' \<or> env = go ''development'' \<or> goEnv = go ''dev''
                 \<or> goEnv = go ''development'' \<or> infra = go ''local'')
      in \<lparr>Level = Some (if dev then LevelDebug else LevelInfo),
          Format = (if dev then go ''text'' else go ''json''),
          Writer = Stdout,
          AddSource = True\<rparr>)"

text \<open>
  The configuration that the body of \<^verbatim>\<open>Init\<close> hands to \<^verbatim>\<open>build\<close>: the defaults, then every
  option applied in the order given.
\<close>

definition resolve :: "stdlib \<Rightarrow> Env \<Rightarrow> Option list \<Rightarrow> Config" where
  "resolve L e optns = foldl (\<lambda>cfg opt. opt cfg) (defaultConfig L e) optns"

section \<open>Process state\<close>

text \<open>
  The package variables \<^verbatim>\<open>once\<close>, \<^verbatim>\<open>base\<close> and \<^verbatim>\<open>initErr\<close>, the default logger of
  \<^verbatim>\<open>log/slog\<close> (\<open>None\<close> until \<^verbatim>\<open>slog.SetDefault\<close> is called), and the lines that the
  package has printed to standard output. \<open>builds\<close> is a ghost counter of the calls of
  \<^verbatim>\<open>build\<close>.
\<close>

record State =
  once_done :: bool
  base :: "slog_Logger option"
  initErr :: "error option"
  slog_default :: "slog_Logger option"
  stdout :: "gostring list"
  builds :: nat

definition init_state :: State where
  "init_state = \<lparr>once_done = False, base = None, initErr = None, slog_default = None,
                  stdout = [], builds = 0\<rparr>"

definition Println :: "gostring \<Rightarrow> State \<Rightarrow> State" where
  "Println l s = s\<lparr>stdout := stdout s @ [l]\<rparr>"

text \<open>
  \<^verbatim>\<open>io.MultiWriter\<close> copies its arguments and flattens those that are fan-outs themselves.
\<close>

definition io_MultiWriter :: "Writer list \<Rightarrow> Writer" where
  "io_MultiWriter ws =
     MultiWriter (concat (map (\<lambda>x. case x of MultiWriter vs \<Rightarrow> vs | _ \<Rightarrow> [x]) ws))"

text \<open>
  \<^verbatim>\<open>(*slog.Logger).With\<close> returns its receiver, nil or not, when given no arguments, and
  copies the receiver otherwise.
\<close>

definition slog_With :: "slog_Logger option \<Rightarrow> gostring list \<Rightarrow> panic + slog_Logger option" where
  "slog_With l args =
     (if args = [] then Inr l
      else case l of
             None \<Rightarrow> Inl NilPointerDereference
           | Some x \<Rightarrow>
               Inr (Some (x\<lparr>handler := (handler x)\<lparr>preformatted := preformatted (handler x) @ args\<rparr>\<rparr>)))"

text \<open>\<^verbatim>\<open>slog.SetDefault\<close> reads the handler of its argument, so a nil logger panics.\<close>

definition SetDefault :: "slog_Logger option \<Rightarrow> State \<Rightarrow> panic + State" where
  "SetDefault l s = (case l of None \<Rightarrow> Inl NilPointerDereference | Some x \<Rightarrow> Inr (s\<lparr>slog_default := Some x\<rparr>))"

section \<open>The singleton\<close>

text \<open>
  \<^verbatim>\<open>Init\<close>: the body runs under \<^verbatim>\<open>once.Do\<close>, that is only when \<^verbatim>\<open>once\<close> has not run yet; the
  stored \<^verbatim>\<open>initErr\<close> is returned either way.
\<close>

definition Init :: "stdlib \<Rightarrow> Env \<Rightarrow> Option list \<Rightarrow> State \<Rightarrow> error option \<times> State" where
  "Init L e optns s =
     (if once_done s then (initErr s, s)
      else
        (let cfg = resolve L e optns;
             (b, err) = build L cfg;
             s' = s\<lparr>once_done := True, base := b, initErr := err, builds := builds s + 1\<rparr>
         in (initErr s', s')))"

text \<open>
  An \<^verbatim>\<open>Option\<close> is a function value, so it can be nil, and calling a nil function panics.
  \<open>Init_nil\<close> is \<^verbatim>\<open>Init\<close> for options of which some may be nil (\<open>None\<close>). The loop over the
  options runs inside \<^verbatim>\<open>once.Do\<close>: when it panics, \<^verbatim>\<open>build\<close> is not reached and \<^verbatim>\<open>base\<close> and
  \<^verbatim>\<open>initErr\<close> keep their values, but \<^verbatim>\<open>sync.Once\<close> counts a body that panicked as run. The
  panic goes on to the caller of \<^verbatim>\<open>Init\<close>; the state returned is the one a caller that
  recovers goes on with.
\<close>

definition Init_nil :: "stdlib \<Rightarrow> Env \<Rightarrow> Option option list \<Rightarrow> State \<Rightarrow> (panic + error option) \<times> State" where
  "Init_nil L e optns s =
     (if once_done s then (Inr (initErr s), s)
      else if None \<in> set optns then (Inl NilPointerDereference, s\<lparr>once_done := True\<rparr>)
      else (case Init L e (map the optns) s of (err, s') \<Rightarrow> (Inr err, s')))"

definition WithAttrs :: "gostring list \<Rightarrow> State \<Rightarrow> panic + slog_Logger option" where
  "WithAttrs attrs s = slog_With (base s) attrs"

definition DEFAULT_LOG_FILE_PATH :: gostring where
  "DEFAULT_LOG_FILE_PATH = go ''logs/app.log''"

definition GetFileWriter :: "stdlib \<Rightarrow> gostring \<Rightarrow> Writer" where
  "GetFileWriter L dir =
     (let filePath = (if dir \<noteq> [] then filepath_Join L dir DEFAULT_LOG_FILE_PATH
                      else DEFAULT_LOG_FILE_PATH)
      in Lumberjack \<lparr>Filename = filePath, MaxSize = 100, MaxBackups = 5, MaxAge = 28,
                      Compress = True\<rparr>)"

definition GetMultiWriter :: "Writer list \<Rightarrow> Writer" where
  "GetMultiWriter dests = io_MultiWriter dests"

text \<open>
  The three get functions end alike once \<^verbatim>\<open>Init\<close> has returned \<open>err\<close>: on an error they
  print the notice with \<^verbatim>\<open>fmt\<close> and return a new logger on \<^verbatim>\<open>io.Discard\<close>; otherwise they make
  \<^verbatim>\<open>base\<close> the default logger and return it.
\<close>

definition after_Init :: "error option \<times> State \<Rightarrow> panic + (slog_Logger option \<times> State)" where
  "after_Init r =
     (case r of
        (Some err, s) \<Rightarrow>
          Inr (Some (slog_New (NewTextHandler Discard None)),
               Println [] (Println (go ''######'')
                 (Println (go ''Error occured, fallback logger initialized, logger will discard logs, error: ''
                             @ err_Error err)
                   (Println (go ''######'') s))))
      | (None, s) \<Rightarrow>
          (case SetDefault (base s) s of
             Inl p \<Rightarrow> Inl p
           | Inr s' \<Rightarrow> Inr (base s', s')))"

definition GetSlogLogger :: "stdlib \<Rightarrow> Env \<Rightarrow> State \<Rightarrow> panic + (slog_Logger option \<times> State)" where
  "GetSlogLogger L e s =
     (if base s \<noteq> None then Inr (base s, s)
      else after_Init (Init L e [] s))"

definition GetSlogMultiLogger :: "stdlib \<Rightarrow> Env \<Rightarrow> gostring \<Rightarrow> State \<Rightarrow> panic + (slog_Logger option \<times> State)" where
  "GetSlogMultiLogger L e dir s =
     (if base s \<noteq> None then Inr (base s, s)
      else
        (let logWriter = GetFileWriter L dir;
             multiWriter = io_MultiWriter [Stdout, logWriter]
         in after_Init (Init L e [WithWriter multiWriter] s)))"

definition GetSlogFileLogger :: "stdlib \<Rightarrow> Env \<Rightarrow> gostring \<Rightarrow> State \<Rightarrow> panic + (slog_Logger option \<times> State)" where
  "GetSlogFileLogger L e dir s =
     (if base s \<noteq> None then Inr (base s, s)
      else
        (let fileWriter = GetFileWriter L dir
         in after_Init (Init L e [WithWriter fileWriter] s)))"

text \<open>
  \<^verbatim>\<open>GetSlogLogger\<close> as \<^verbatim>\<open>logger.go\<close> has it: no singleton, a text handler on standard output,
  and the level from \<^verbatim>\<open>INFRA\<close> alone, compared as it stands.
\<close>

definition GetSlogLogger_logger_go :: "Env \<Rightarrow> State \<Rightarrow> slog_Logger \<times> State" where
  "GetSlogLogger_logger_go e s =
     (let logLevel = (if Getenv e ''INFRA'' = go ''local'' then LevelDebug else LevelInfo);
          ho = \<lparr>opts_Level = Some logLevel, opts_AddSource = False\<rparr>;
          l = slog_New (NewTextHandler Stdout (Some ho))
      in (l, s\<lparr>slog_default := Some l\<rparr>))"

text \<open>\<^verbatim>\<open>GetSlogMultiLogger\<close> as \<^verbatim>\<open>logger.go\<close> has it, with the file path resolved in place.\<close>

definition GetSlogMultiLogger_logger_go :: "stdlib \<Rightarrow> Env \<Rightarrow> gostring \<Rightarrow> State \<Rightarrow> slog_Logger \<times> State" where
  "GetSlogMultiLogger_logger_go L e dir s =
     (let filePath = (if dir \<noteq> [] then filepath_Join L dir DEFAULT_LOG_FILE_PATH
                      else DEFAULT_LOG_FILE_PATH);
          logLevel = (if Getenv e ''INFRA'' = go ''local'' then LevelDebug else LevelInfo);
          logWriter = Lumberjack \<lparr>Filename = filePath, MaxSize = 100, MaxBackups = 5, MaxAge = 28,
                                   Compress = True\<rparr>;
          multiWriter = io_MultiWriter [Stdout, logWriter];
          ho = \<lparr>opts_Level = Some logLevel, opts_AddSource = False\<rparr>;
          l = slog_New (NewTextHandler multiWriter (Some ho))
      in (l, s\<lparr>slog_default := Some l\<rparr>))"

section \<open>The zap loggers\<close>

text \<open>
  What the code configures of a \<^verbatim>\<open>zap.Logger\<close>: the encoder configuration, the level of
  both cores, the rotating file of the file core (the console core writes to standard
  output) and the name.
\<close>

datatype EncoderConfig = Production | Development

type_synonym zapcore_Level = int

definition zapcore_DebugLevel :: zapcore_Level where "zapcore_DebugLevel = - 1"
definition zapcore_InfoLevel :: zapcore_Level where "zapcore_InfoLevel = 0"

record zap_Logger =
  encoder :: EncoderConfig
  core_level :: zapcore_Level
  file_core :: lumberjack_Logger
  name :: gostring

text \<open>\<^verbatim>\<open>Named\<close> on a logger: an empty name changes nothing, a name is appended after a dot.\<close>

definition Named :: "zap_Logger \<Rightarrow> gostring \<Rightarrow> zap_Logger" where
  "Named l n =
     (if n = [] then l
      else if name l = [] then l\<lparr>name := n\<rparr>
      else l\<lparr>name := name l @ go ''.'' @ n\<rparr>)"

definition GetZapLogger :: "stdlib \<Rightarrow> Env \<Rightarrow> gostring \<Rightarrow> gostring \<Rightarrow> zap_Logger" where
  "GetZapLogger L e dir namedAs =
     (let filePath = (if dir \<noteq> [] then filepath_Join L dir DEFAULT_LOG_FILE_PATH
                      else DEFAULT_LOG_FILE_PATH);
          local = (Getenv e ''INFRA'' = go ''local'');
          logLevel = (if local then zapcore_DebugLevel else zapcore_InfoLevel);
          cfg = (if local then Development else Production);
          writer = \<lparr>Filename = filePath, MaxSize = 10, MaxBackups = 3, MaxAge = 28,
                    Compress = False\<rparr>
      in Named \<lparr>encoder = cfg, core_level = logLevel, file_core = writer, name = []\<rparr> namedAs)"

definition DEFAULT_LOG_LEVEL :: zapcore_Level where
  "DEFAULT_LOG_LEVEL = zapcore_DebugLevel"

record AppLoggerConfig =
  FilePath :: gostring
  Name :: gostring
  Level_zap :: zapcore_Level

record appLogger =
  Logger :: zap_Logger
  config :: "AppLoggerConfig option"

text \<open>
  \<^verbatim>\<open>NewAppLogger\<close> takes a pointer, \<open>None\<close> when nil. The first use of the pointer is under
  \<^verbatim>\<open>if config != nil\<close>; the later read of \<^verbatim>\<open>config.Name\<close> is not.
\<close>

definition NewAppLogger :: "AppLoggerConfig option \<Rightarrow> panic + appLogger" where
  "NewAppLogger cfg_ptr =
     (let logLevel = (case cfg_ptr of None \<Rightarrow> DEFAULT_LOG_LEVEL | Some c \<Rightarrow> Level_zap c);
          filePath = (case cfg_ptr of
                        None \<Rightarrow> DEFAULT_LOG_FILE_PATH
                      | Some c \<Rightarrow> if FilePath c \<noteq> [] then FilePath c else DEFAULT_LOG_FILE_PATH);
          writer = \<lparr>Filename = filePath, MaxSize = 10, MaxBackups = 3, MaxAge = 28,
                    Compress = False\<rparr>;
          logger = \<lparr>encoder = Production, core_level = logLevel, file_core = writer, name = []\<rparr>
      in case cfg_ptr of
           None \<Rightarrow> Inl NilPointerDereference
         | Some c \<Rightarrow>
             Inr \<lparr>Logger = (if Name c \<noteq> [] then Named logger (Name c) else logger),
                  config = cfg_ptr\<rparr>)"

section \<open>The context carrier\<close>

text \<open>
  A (non-nil) \<^verbatim>\<open>context.Context\<close> as far as values go: the background context, or a
  context derived by \<^verbatim>\<open>context.WithValue\<close> from a parent with one key and one value. A key
  is a value of the package's own key type or of some other type. A value of type
  \<^verbatim>\<open>any\<close> is nil, a value whose type implements \<^verbatim>\<open>Logger\<close>, or a value of another type.
  A \<^verbatim>\<open>Logger\<close> interface value is \<open>None\<close> when nil.
\<close>

datatype CtxKey = loggerContextKey string | otherKey nat

definition contextLoggerKey :: CtxKey where
  "contextLoggerKey = loggerContextKey ''ContextLoggerKey''"

datatype 'l any = NilValue | LoggerValue 'l | OtherValue nat

datatype 'l Context = Background | valueCtx "'l Context" CtxKey "'l any"

fun Value :: "'l Context \<Rightarrow> CtxKey \<Rightarrow> 'l any" where
  "Value Background k = NilValue"
| "Value (valueCtx parent key val) k = (if key = k then val else Value parent k)"

definition context_WithValue :: "'l Context \<Rightarrow> CtxKey \<Rightarrow> 'l any \<Rightarrow> 'l Context" where
  "context_WithValue parent key val = valueCtx parent key val"

definition NO_LOGGER_FOUND :: gostring where
  "NO_LOGGER_FOUND = go ''no logger found in context''"

definition ErrNoLoggerInContext :: error where
  "ErrNoLoggerInContext = errors_New NO_LOGGER_FOUND"

definition to_any :: "'l option \<Rightarrow> 'l any" where
  "to_any logger = (case logger of None \<Rightarrow> NilValue | Some l \<Rightarrow> LoggerValue l)"

definition WithLogger :: "'l Context \<Rightarrow> 'l option \<Rightarrow> 'l Context" where
  "WithLogger ctx logger = context_WithValue ctx contextLoggerKey (to_any logger)"

definition LoggerFromContext :: "'l Context \<Rightarrow> 'l option \<times> error option" where
  "LoggerFromContext ctx =
     (case Value ctx contextLoggerKey of
        LoggerValue logger \<Rightarrow> (Some logger, None)
      | _ \<Rightarrow> (None, Some ErrNoLoggerInContext))"

section \<open>Sequences of calls\<close>

text \<open>
  A call of \<^verbatim>\<open>Init\<close> or of a get function, each made under the environment of its moment,
  and what it returns. \<open>run\<close> makes the calls of a list one after the other and stops at
  a panic.
\<close>

datatype Call =
  Call_Init "Option list"
| Call_GetSlogLogger
| Call_GetSlogFileLogger gostring
| Call_GetSlogMultiLogger gostring

datatype Returned = Err "error option" | Handle "slog_Logger option"

definition handle_of :: "panic + (slog_Logger option \<times> State) \<Rightarrow> panic + (Returned \<times> State)" where
  "handle_of r = (case r of Inl p \<Rightarrow> Inl p | Inr (l, s) \<Rightarrow> Inr (Handle l, s))"

fun call :: "stdlib \<Rightarrow> Env \<times> Call \<Rightarrow> State \<Rightarrow> panic + (Returned \<times> State)" where
  "call L (e, Call_Init optns) s = (case Init L e optns s of (err, s') \<Rightarrow> Inr (Err err, s'))"
| "call L (e, Call_GetSlogLogger) s = handle_of (GetSlogLogger L e s)"
| "call L (e, Call_GetSlogFileLogger dir) s = handle_of (GetSlogFileLogger L e dir s)"
| "call L (e, Call_GetSlogMultiLogger dir) s = handle_of (GetSlogMultiLogger L e dir s)"

fun run :: "stdlib \<Rightarrow> (Env \<times> Call) list \<Rightarrow> State \<Rightarrow> panic + (Returned list \<times> State)" where
  "run L [] s = Inr ([], s)"
| "run L (c # cs) s =
     (case call L c s of
        Inl p \<Rightarrow> Inl p
      | Inr (r, s') \<Rightarrow>
          (case run L cs s' of Inl p \<Rightarrow> Inl p | Inr (rs, s'') \<Rightarrow> Inr (r # rs, s'')))"



text \<open>
  The options that the four constructors make, named by constructor and argument, and the
  value an option list leaves in a field: the last one supplied, or the default.
\<close>

datatype Supplied =
  Supplied_Level Leveler
| Supplied_Format gostring
| Supplied_Writer Writer
| Supplied_AddSource bool

fun option_of :: "Supplied \<Rightarrow> Option" where
  "option_of (Supplied_Level l) = WithLevel l"
| "option_of (Supplied_Format f) = WithFormat f"
| "option_of (Supplied_Writer x) = WithWriter x"
| "option_of (Supplied_AddSource b) = WithAddSource b"

definition last_or :: "'a \<Rightarrow> 'a list \<Rightarrow> 'a" where
  "last_or d xs = (if xs = [] then d else last xs)"

subsection \<open>Inputs of the examples\<close>

text \<open>
  A standard library for the examples: no case pairs beyond ASCII, and the Unix
  \<^verbatim>\<open>filepath.Join\<close>.
\<close>

definition example_lib :: stdlib where
  "example_lib = \<lparr>unicode_ToLower = (\<lambda>r. r), filepath_Join = unix_Join\<rparr>"

definition no_env :: Env where
  "no_env = Map.empty"

text \<open>
  The logger that \<^verbatim>\<open>build\<close> makes of the defaults when no variable is set, and the state
  that a first \<^verbatim>\<open>Init()\<close> leaves then.
\<close>

definition json_stdout_logger :: slog_Logger where
  "json_stdout_logger =
     \<lparr>handler = \<lparr>kind = JSON, w = Stdout,
                 opts = \<lparr>opts_Level = Some LevelInfo, opts_AddSource = True\<rparr>,
                 preformatted = []\<rparr>\<rparr>"

definition ready_state :: State where
  "ready_state = init_state\<lparr>once_done := True, base := Some json_stdout_logger,
                            initErr := None, builds := 1\<rparr>"



section \<open>Properties\<close>

subsection \<open>Auxiliary facts\<close>

lemma go_simps: "go [] = []" "go (c # cs) = of_char c # go cs"
  by (simp_all add: go_def)

lemma build_result: "\<exists>l. build L c = (Some l, None)"
  by (simp add: build_def Let_def)

lemma build_handler_writer: "\<exists>l. build L c = (Some l, None) \<and> w (handler l) = Writer c"
  by (simp add: build_def Let_def slog_New_def NewJSONHandler_def NewTextHandler_def)

lemma split_slash_plain: "47 \<notin> set x \<Longrightarrow> split_slash x = [x]"
  by (induction x) auto

lemma split_slash_append: "47 \<notin> set x \<Longrightarrow> split_slash (x @ 47 # r) = x # split_slash r"
  by (induction x) (auto split: list.splits)

lemma split_join_slash:
  "cs \<noteq> [] \<Longrightarrow> \<forall>c\<in>set cs. 47 \<notin> set c \<Longrightarrow> split_slash (join_slash cs) = cs"
  by (induction cs rule: join_slash.induct) (simp_all add: split_slash_plain split_slash_append)

lemma join_slash_append:
  "xs \<noteq> [] \<Longrightarrow> ys \<noteq> [] \<Longrightarrow> join_slash (xs @ ys) = join_slash xs @ 47 # join_slash ys"
proof (induction xs rule: join_slash.induct)
  case 1
  then show ?case by simp
next
  case (2 x)
  then show ?case by (cases ys) simp_all
next
  case (3 x y ys)
  then show ?case by simp
qed

lemma foldl_clean_step_plain:
  "\<forall>c\<in>set cs. plain_name c \<Longrightarrow> foldl (clean_step r) out cs = rev cs @ out"
  by (induction cs arbitrary: out) (auto simp: clean_step_def plain_name_def)

lemma join_slash_Cons:
  "join_slash (x # xs) = x @ (if xs = [] then [] else 47 # join_slash xs)"
  by (cases xs) simp_all

lemma join_slash_plain:
  assumes "cs \<noteq> []" "\<forall>c\<in>set cs. plain_name c"
  shows "join_slash cs \<noteq> []" "hd (join_slash cs) \<noteq> 47"
proof -
  obtain x xs where cs: "cs = x # xs" using assms(1) by (cases cs) auto
  then have x: "x \<noteq> []" "47 \<notin> set x" using assms(2) by (auto simp: plain_name_def)
  then have "hd x \<noteq> 47" by (cases x) auto
  then show "join_slash cs \<noteq> []" "hd (join_slash cs) \<noteq> 47"
    using x unfolding cs join_slash_Cons by simp_all
qed

lemma Clean_plain:
  assumes "cs \<noteq> []" "\<forall>c\<in>set cs. plain_name c"
  shows "filepath_Clean (join_slash cs) = join_slash cs"
    and "filepath_Clean (47 # join_slash cs) = 47 # join_slash cs"
proof -
  have s: "split_slash (join_slash cs) = cs"
    using assms by (intro split_join_slash) (auto simp: plain_name_def)
  show "filepath_Clean (join_slash cs) = join_slash cs"
    using assms join_slash_plain[OF assms] s
    by (simp add: filepath_Clean_def Let_def foldl_clean_step_plain)
  have "foldl (clean_step True) [] ([] # cs) = rev cs"
    using assms(2) by (simp add: clean_step_def foldl_clean_step_plain)
  then show "filepath_Clean (47 # join_slash cs) = 47 # join_slash cs"
    using s by (simp add: filepath_Clean_def Let_def)
qed

lemma unix_Join_plain:
  assumes "cs \<noteq> []" "\<forall>c\<in>set cs. plain_name c"
  shows "unix_Join (join_slash cs) (go ''logs/app.log'') = join_slash cs @ go ''/logs/app.log''"
    and "unix_Join (47 # join_slash cs) (go ''logs/app.log'') = 47 # join_slash cs @ go ''/logs/app.log''"
proof -
  define p where "p = [go ''logs'', go ''app.log'']"
  define q where "q = join_slash p"
  define d where "d = join_slash cs"
  have q: "go ''logs/app.log'' = q" "go ''/logs/app.log'' = 47 # q"
    by (simp_all add: q_def p_def go_simps)
  have pl: "\<forall>c\<in>set (cs @ p). plain_name c"
    using assms(2) by (auto simp: plain_name_def p_def go_simps)
  have ne: "cs @ p \<noteq> []" "p \<noteq> []" by (simp_all add: p_def)
  have j: "join_slash (cs @ p) = d @ 47 # q"
    using assms(1) ne(2) by (simp add: join_slash_append q_def d_def)
  have cl: "filepath_Clean (d @ 47 # q) = d @ 47 # q"
    "filepath_Clean (47 # d @ 47 # q) = 47 # d @ 47 # q"
    using Clean_plain[OF ne(1) pl] by (simp_all add: j)
  have dne: "d \<noteq> []" using join_slash_plain(1)[OF assms] by (simp add: d_def)
  show "unix_Join (join_slash cs) (go ''logs/app.log'') = join_slash cs @ go ''/logs/app.log''"
    using dne cl(1) unfolding q d_def[symmetric] by (simp add: unix_Join_def)
  show "unix_Join (47 # join_slash cs) (go ''logs/app.log'') = 47 # join_slash cs @ go ''/logs/app.log''"
    using cl(2) unfolding q d_def[symmetric] by (simp add: unix_Join_def)
qed

lemma build_handler_facts:
  "\<exists>l. build L c = (Some l, None) \<and> w (handler l) = Writer c
      \<and> opts (handler l) = \<lparr>opts_Level = Level c, opts_AddSource = AddSource c\<rparr>
      \<and> kind (handler l) =
          (if ToLower L (TrimSpace (Format c)) = go ''text''
              \<or> ToLower L (TrimSpace (Format c)) = go ''console'' then Text else JSON)"
  by (simp add: build_def Let_def slog_New_def NewJSONHandler_def NewTextHandler_def
      handlerOptions_def go_simps)

lemma defaultConfig_eq:
  "defaultConfig L e =
     (let dev = (ToLower L (TrimSpace (Getenv e ''ENV'')) = go ''dev''
                 \<or> ToLower L (TrimSpace (Getenv e ''ENV'')) = go ''development''
                 \<or> ToLower L (TrimSpace (Getenv e ''GO_ENV'')) = go ''dev''
                 \<or> ToLower L (TrimSpace (Getenv e ''GO_ENV'')) = go ''development''
                 \<or> ToLower L (TrimSpace (Getenv e ''INFRA'')) = go ''local'')
      in \<lparr>Level = Some (if dev then LevelDebug else LevelInfo),
          Format = (if dev then go ''text'' else go ''json''),
          Writer = Stdout, AddSource = True\<rparr>)"
  by (simp add: defaultConfig_def Let_def)

lemma resolve_snoc: "resolve L e (optns @ [opt]) = opt (resolve L e optns)"
  by (simp add: resolve_def)

lemma last_or_snoc: "last_or d (xs @ [x]) = x"
  by (simp add: last_or_def)

lemma resolve_options:
  "resolve L e (map option_of xs) =
     \<lparr>Level = last_or (Level (defaultConfig L e)) [l. Supplied_Level l \<leftarrow> xs],
      Format = last_or (Format (defaultConfig L e)) [f. Supplied_Format f \<leftarrow> xs],
      Writer = last_or (Writer (defaultConfig L e)) [x. Supplied_Writer x \<leftarrow> xs],
      AddSource = last_or (AddSource (defaultConfig L e)) [b. Supplied_AddSource b \<leftarrow> xs]\<rparr>"
proof (induction xs rule: rev_induct)
  case Nil
  then show ?case by (simp add: resolve_def last_or_def)
next
  case (snoc x xs)
  then show ?case
    by (cases x) (simp_all add: resolve_snoc last_or_snoc WithLevel_def WithFormat_def
        WithWriter_def WithAddSource_def)
qed

lemma example_logger_facts:
  "build example_lib (resolve example_lib no_env []) = (Some json_stdout_logger, None)"
  by (simp add: build_def resolve_def defaultConfig_def no_env_def Getenv_def Let_def
      ToLower_def TrimSpace_def ToLower_rune_def IsSpace_def go_simps slog_New_def
      NewJSONHandler_def handlerOptions_def json_stdout_logger_def)



lemma init_state_simps:
  "\<not> once_done init_state" "base init_state = None" "initErr init_state = None"
  "builds init_state = 0" "stdout init_state = []"
  by (simp_all add: init_state_def)



text \<open>Options that are all there make \<open>Init_nil\<close> what \<^verbatim>\<open>Init\<close> is.\<close>

lemma Init_nil_Some:
  "Init_nil L e (map Some optns) s = (Inr (fst (Init L e optns s)), snd (Init L e optns s))"
  by (auto simp: Init_nil_def comp_def Init_def split: prod.splits)

subsection \<open>The singleton\<close>



text \<open>
  C2. The one construction attempt can fail in one way only, by a panic of an option
  inside \<^verbatim>\<open>once.Do\<close> (\<^verbatim>\<open>build\<close> never returns an error). After \<^verbatim>\<open>Init(nil)\<close> has panicked,
  \<^verbatim>\<open>once\<close> is spent while \<^verbatim>\<open>base\<close> and \<^verbatim>\<open>initErr\<close> are both nil, every later \<^verbatim>\<open>Init\<close> returns
  no error, and every later \<^verbatim>\<open>GetSlogLogger\<close>, \<^verbatim>\<open>GetSlogFileLogger\<close> and \<^verbatim>\<open>GetSlogMultiLogger\<close>
  panics (in \<^verbatim>\<open>slog.SetDefault\<close> on the nil \<^verbatim>\<open>base\<close>) instead of returning a logger that discards.
\<close>

theorem panicked_construction_breaks_get:
  "Init_nil L e [None] init_state = (Inl NilPointerDereference, init_state\<lparr>once_done := True\<rparr>)
   \<and> Init L e' optns (init_state\<lparr>once_done := True\<rparr>) = (None, init_state\<lparr>once_done := True\<rparr>)
   \<and> GetSlogLogger L e' (init_state\<lparr>once_done := True\<rparr>) = Inl NilPointerDereference
   \<and> GetSlogFileLogger L e' dir (init_state\<lparr>once_done := True\<rparr>) = Inl NilPointerDereference
   \<and> GetSlogMultiLogger L e' dir (init_state\<lparr>once_done := True\<rparr>) = Inl NilPointerDereference"
  by (simp add: Init_nil_def Init_def GetSlogLogger_def GetSlogFileLogger_def
      GetSlogMultiLogger_def after_Init_def SetDefault_def init_state_simps)

text \<open>
  With options that do not panic, no sequence of calls ever takes the fallback branch of
  the get functions: no error is stored and nothing is printed.
\<close>

lemma construction_returns_no_error:
  "\<exists>rs s. run L cs init_state = Inr (rs, s) \<and> initErr s = None \<and> stdout s = []
      \<and> (once_done s \<longrightarrow> base s \<noteq> None)"
proof -
  have step: "\<exists>r s'. call L c s = Inr (r, s') \<and> initErr s' = None \<and> stdout s' = []
      \<and> once_done s' \<and> base s' \<noteq> None"
    if "initErr s = None" "stdout s = []" "once_done s \<longleftrightarrow> base s \<noteq> None" for c s
  proof (cases c)
    case (Pair e k)
    obtain l1 where l1: "build L (resolve L e []) = (Some l1, None)"
      using build_result by blast
    show ?thesis
    proof (cases k)
      case (Call_Init optns)
      obtain l where "build L (resolve L e optns) = (Some l, None)"
        using build_result by blast
      then show ?thesis using Pair Call_Init that
        by (auto simp: Init_def)
    next
      case Call_GetSlogLogger
      then show ?thesis using Pair that l1
        by (auto simp: GetSlogLogger_def Init_def handle_of_def after_Init_def SetDefault_def)
    next
      case (Call_GetSlogFileLogger d)
      obtain l where "build L (resolve L e [WithWriter (GetFileWriter L d)]) = (Some l, None)"
        using build_result by blast
      then show ?thesis using Pair Call_GetSlogFileLogger that
        by (auto simp: GetSlogFileLogger_def Init_def handle_of_def after_Init_def SetDefault_def)
    next
      case (Call_GetSlogMultiLogger d)
      obtain l where
        "build L (resolve L e [WithWriter (io_MultiWriter [Stdout, GetFileWriter L d])]) = (Some l, None)"
        using build_result by blast
      then show ?thesis using Pair Call_GetSlogMultiLogger that
        by (auto simp: GetSlogMultiLogger_def Init_def handle_of_def after_Init_def SetDefault_def)
    qed
  qed
  have "\<exists>rs s'. run L cs s = Inr (rs, s') \<and> initErr s' = None \<and> stdout s' = []
      \<and> (once_done s' \<longleftrightarrow> base s' \<noteq> None)"
    if "initErr s = None" "stdout s = []" "once_done s \<longleftrightarrow> base s \<noteq> None" for s
    using that
  proof (induction cs arbitrary: s)
    case Nil
    then show ?case by simp
  next
    case (Cons c cs)
    from step[OF Cons.prems, of c] obtain r s1 where
      c: "call L c s = Inr (r, s1)" "initErr s1 = None" "stdout s1 = []"
         "once_done s1" "base s1 \<noteq> None" by blast
    from Cons.IH[of s1] c obtain rs s2 where
      "run L cs s1 = Inr (rs, s2)" "initErr s2 = None" "stdout s2 = []"
      "once_done s2 \<longleftrightarrow> base s2 \<noteq> None" by blast
    with c show ?case by simp
  qed
  from this[of init_state] show ?thesis by (auto simp: init_state_simps)
qed

subsection \<open>Configuration\<close>

text \<open>
  C3. With \<^verbatim>\<open>ENV\<close>, \<^verbatim>\<open>GO_ENV\<close> and \<^verbatim>\<open>INFRA\<close> unset, \<^verbatim>\<open>defaultConfig\<close> gives the format
  \<^verbatim>\<open>json\<close> and the level Info. When \<^verbatim>\<open>ENV\<close> or \<^verbatim>\<open>GO_ENV\<close>, trimmed and lowered, is \<^verbatim>\<open>dev\<close> or
  \<^verbatim>\<open>development\<close>, or \<^verbatim>\<open>INFRA\<close>, trimmed and lowered, is \<^verbatim>\<open>local\<close>, it gives the format
  \<^verbatim>\<open>text\<close> and the level Debug. Its result depends on nothing but the values of these three
  variables.
\<close>

theorem defaultConfig_from_environment:
  "(e ''ENV'' = None \<and> e ''GO_ENV'' = None \<and> e ''INFRA'' = None \<longrightarrow>
      Format (defaultConfig L e) = go ''json'' \<and> Level (defaultConfig L e) = Some LevelInfo)
   \<and> (ToLower L (TrimSpace (Getenv e ''ENV'')) \<in> {go ''dev'', go ''development''}
       \<or> ToLower L (TrimSpace (Getenv e ''GO_ENV'')) \<in> {go ''dev'', go ''development''}
       \<or> ToLower L (TrimSpace (Getenv e ''INFRA'')) = go ''local'' \<longrightarrow>
      Format (defaultConfig L e) = go ''text'' \<and> Level (defaultConfig L e) = Some LevelDebug)
   \<and> (e ''ENV'' = e' ''ENV'' \<and> e ''GO_ENV'' = e' ''GO_ENV'' \<and> e ''INFRA'' = e' ''INFRA'' \<longrightarrow>
      defaultConfig L e = defaultConfig L e')"
proof (intro conjI impI)
  assume "e ''ENV'' = None \<and> e ''GO_ENV'' = None \<and> e ''INFRA'' = None"
  then have "Getenv e ''ENV'' = []" "Getenv e ''GO_ENV'' = []" "Getenv e ''INFRA'' = []"
    by (simp_all add: Getenv_def)
  then show "Format (defaultConfig L e) = go ''json''" "Level (defaultConfig L e) = Some LevelInfo"
    by (simp_all add: defaultConfig_def ToLower_def TrimSpace_def go_simps)
next
  assume "ToLower L (TrimSpace (Getenv e ''ENV'')) \<in> {go ''dev'', go ''development''}
       \<or> ToLower L (TrimSpace (Getenv e ''GO_ENV'')) \<in> {go ''dev'', go ''development''}
       \<or> ToLower L (TrimSpace (Getenv e ''INFRA'')) = go ''local''"
  then show "Format (defaultConfig L e) = go ''text''" "Level (defaultConfig L e) = Some LevelDebug"
    by (auto simp: defaultConfig_def Let_def)
next
  assume "e ''ENV'' = e' ''ENV'' \<and> e ''GO_ENV'' = e' ''GO_ENV'' \<and> e ''INFRA'' = e' ''INFRA''"
  then show "defaultConfig L e = defaultConfig L e'"
    by (simp add: defaultConfig_def Getenv_def)
qed

theorem defaultConfig_from_environment_witness:
  "Format (defaultConfig example_lib no_env) = go ''json''
   \<and> Level (defaultConfig example_lib no_env) = Some LevelInfo
   \<and> Format (defaultConfig example_lib (no_env(''ENV'' \<mapsto> go ''development''))) = go ''text''
   \<and> Level (defaultConfig example_lib (no_env(''ENV'' \<mapsto> go ''development''))) = Some LevelDebug
   \<and> Format (defaultConfig example_lib (no_env(''INFRA'' \<mapsto> go ''local''))) = go ''text''
   \<and> Level (defaultConfig example_lib (no_env(''INFRA'' \<mapsto> go ''local''))) = Some LevelDebug
   \<and> defaultConfig example_lib (no_env(''HOME'' \<mapsto> go ''/root'')) = defaultConfig example_lib no_env"
proof -
  have n: "ToLower example_lib (TrimSpace (go ''development'')) = go ''development''"
    "ToLower example_lib (TrimSpace (go ''local'')) = go ''local''"
    by (simp_all add: ToLower_def TrimSpace_def ToLower_rune_def IsSpace_def go_simps)
  have unset: "Format (defaultConfig example_lib no_env) = go ''json''
      \<and> Level (defaultConfig example_lib no_env) = Some LevelInfo"
    using defaultConfig_from_environment[of no_env example_lib no_env]
    by (simp add: no_env_def)
  have dev: "Format (defaultConfig example_lib (no_env(''ENV'' \<mapsto> go ''development''))) = go ''text''
      \<and> Level (defaultConfig example_lib (no_env(''ENV'' \<mapsto> go ''development''))) = Some LevelDebug"
    using defaultConfig_from_environment[of "no_env(''ENV'' \<mapsto> go ''development'')" example_lib no_env] n
    by (simp add: Getenv_def)
  have loc: "Format (defaultConfig example_lib (no_env(''INFRA'' \<mapsto> go ''local''))) = go ''text''
      \<and> Level (defaultConfig example_lib (no_env(''INFRA'' \<mapsto> go ''local''))) = Some LevelDebug"
    using defaultConfig_from_environment[of "no_env(''INFRA'' \<mapsto> go ''local'')" example_lib no_env] n
    by (simp add: Getenv_def)
  have same: "defaultConfig example_lib (no_env(''HOME'' \<mapsto> go ''/root'')) = defaultConfig example_lib no_env"
    using defaultConfig_from_environment[of "no_env(''HOME'' \<mapsto> go ''/root'')" example_lib no_env]
    by (simp add: no_env_def)
  from unset dev loc same show ?thesis by blast
qed

text \<open>
  C4 (as amended). When \<^verbatim>\<open>Init\<close> is the call that constructs (\<^verbatim>\<open>once\<close> has not run), it returns
  no error and caches the logger that \<^verbatim>\<open>build\<close> makes of a configuration in which, for every
  environment, each field holds the last option supplied for it; without such an option
  level and format are Debug and \<^verbatim>\<open>text\<close> when the environment denotes development or
  local, and otherwise the fallback Info and \<^verbatim>\<open>json\<close>; writer and source flag are the
  fallback standard output and true. The cached logger writes to that writer, with that
  level and source flag, and its handler is chosen by that format. Once \<^verbatim>\<open>once\<close> has run,
  \<^verbatim>\<open>Init\<close> ignores its options: it returns the stored error and changes nothing.
\<close>

theorem first_Init_options_override:
  "(\<not> once_done s \<longrightarrow>
      (\<exists>l. Init L e (map option_of xs) s =
              (None, s\<lparr>once_done := True, base := Some l, initErr := None, builds := builds s + 1\<rparr>)
         \<and> (let dev = (ToLower L (TrimSpace (Getenv e ''ENV'')) = go ''dev''
                        \<or> ToLower L (TrimSpace (Getenv e ''ENV'')) = go ''development''
                        \<or> ToLower L (TrimSpace (Getenv e ''GO_ENV'')) = go ''dev''
                        \<or> ToLower L (TrimSpace (Getenv e ''GO_ENV'')) = go ''development''
                        \<or> ToLower L (TrimSpace (Getenv e ''INFRA'')) = go ''local'');
                 level = last_or (Some (if dev then LevelDebug else LevelInfo))
                           [v. Supplied_Level v \<leftarrow> xs];
                 format = last_or (if dev then go ''text'' else go ''json'')
                            [f. Supplied_Format f \<leftarrow> xs];
                 writer = last_or Stdout [x. Supplied_Writer x \<leftarrow> xs];
                 addSource = last_or True [b. Supplied_AddSource b \<leftarrow> xs]
             in resolve L e (map option_of xs) =
                  \<lparr>Level = level, Format = format, Writer = writer, AddSource = addSource\<rparr>
                \<and> w (handler l) = writer
                \<and> opts (handler l) = \<lparr>opts_Level = level, opts_AddSource = addSource\<rparr>
                \<and> kind (handler l) =
                    (if ToLower L (TrimSpace format) = go ''text''
                        \<or> ToLower L (TrimSpace format) = go ''console'' then Text else JSON))))
   \<and> (once_done s \<longrightarrow> Init L e optns s = (initErr s, s))"
proof (intro conjI impI)
  assume n: "\<not> once_done s"
  let ?cfg = "resolve L e (map option_of xs)"
  obtain l where l: "build L ?cfg = (Some l, None)" "w (handler l) = Writer ?cfg"
    "opts (handler l) = \<lparr>opts_Level = Level ?cfg, opts_AddSource = AddSource ?cfg\<rparr>"
    "kind (handler l) =
       (if ToLower L (TrimSpace (Format ?cfg)) = go ''text''
           \<or> ToLower L (TrimSpace (Format ?cfg)) = go ''console'' then Text else JSON)"
    using build_handler_facts[of L ?cfg] by blast
  have i: "Init L e (map option_of xs) s =
            (None, s\<lparr>once_done := True, base := Some l, initErr := None, builds := builds s + 1\<rparr>)"
    using n l(1) by (simp add: Init_def Let_def)
  have c: "?cfg =
     \<lparr>Level = last_or (Level (defaultConfig L e)) [v. Supplied_Level v \<leftarrow> xs],
      Format = last_or (Format (defaultConfig L e)) [f. Supplied_Format f \<leftarrow> xs],
      Writer = last_or (Writer (defaultConfig L e)) [x. Supplied_Writer x \<leftarrow> xs],
      AddSource = last_or (AddSource (defaultConfig L e)) [b. Supplied_AddSource b \<leftarrow> xs]\<rparr>"
    by (rule resolve_options)
  show "\<exists>l. Init L e (map option_of xs) s =
              (None, s\<lparr>once_done := True, base := Some l, initErr := None, builds := builds s + 1\<rparr>)
         \<and> (let dev = (ToLower L (TrimSpace (Getenv e ''ENV'')) = go ''dev''
                        \<or> ToLower L (TrimSpace (Getenv e ''ENV'')) = go ''development''
                        \<or> ToLower L (TrimSpace (Getenv e ''GO_ENV'')) = go ''dev''
                        \<or> ToLower L (TrimSpace (Getenv e ''GO_ENV'')) = go ''development''
                        \<or> ToLower L (TrimSpace (Getenv e ''INFRA'')) = go ''local'');
                 level = last_or (Some (if dev then LevelDebug else LevelInfo))
                           [v. Supplied_Level v \<leftarrow> xs];
                 format = last_or (if dev then go ''text'' else go ''json'')
                            [f. Supplied_Format f \<leftarrow> xs];
                 writer = last_or Stdout [x. Supplied_Writer x \<leftarrow> xs];
                 addSource = last_or True [b. Supplied_AddSource b \<leftarrow> xs]
             in resolve L e (map option_of xs) =
                  \<lparr>Level = level, Format = format, Writer = writer, AddSource = addSource\<rparr>
                \<and> w (handler l) = writer
                \<and> opts (handler l) = \<lparr>opts_Level = level, opts_AddSource = addSource\<rparr>
                \<and> kind (handler l) =
                    (if ToLower L (TrimSpace format) = go ''text''
                        \<or> ToLower L (TrimSpace format) = go ''console'' then Text else JSON))"
  proof (intro exI[of _ l] conjI)
    show "Init L e (map option_of xs) s =
            (None, s\<lparr>once_done := True, base := Some l, initErr := None, builds := builds s + 1\<rparr>)"
      by (rule i)
    show "let dev = (ToLower L (TrimSpace (Getenv e ''ENV'')) = go ''dev''
                        \<or> ToLower L (TrimSpace (Getenv e ''ENV'')) = go ''development''
                        \<or> ToLower L (TrimSpace (Getenv e ''GO_ENV'')) = go ''dev''
                        \<or> ToLower L (TrimSpace (Getenv e ''GO_ENV'')) = go ''development''
                        \<or> ToLower L (TrimSpace (Getenv e ''INFRA'')) = go ''local'');
                 level = last_or (Some (if dev then LevelDebug else LevelInfo))
                           [v. Supplied_Level v \<leftarrow> xs];
                 format = last_or (if dev then go ''text'' else go ''json'')
                            [f. Supplied_Format f \<leftarrow> xs];
                 writer = last_or Stdout [x. Supplied_Writer x \<leftarrow> xs];
                 addSource = last_or True [b. Supplied_AddSource b \<leftarrow> xs]
             in resolve L e (map option_of xs) =
                  \<lparr>Level = level, Format = format, Writer = writer, AddSource = addSource\<rparr>
                \<and> w (handler l) = writer
                \<and> opts (handler l) = \<lparr>opts_Level = level, opts_AddSource = addSource\<rparr>
                \<and> kind (handler l) =
                    (if ToLower L (TrimSpace format) = go ''text''
                        \<or> ToLower L (TrimSpace format) = go ''console'' then Text else JSON)"
      unfolding l(2,3,4) unfolding c unfolding defaultConfig_eq
      by (simp add: Let_def)
  qed
next
  assume "once_done s"
  then show "Init L e optns s = (initErr s, s)"
    by (simp add: Init_def)
qed

theorem first_Init_options_override_witness:
  "\<not> once_done init_state \<and> once_done ready_state
   \<and> (\<exists>l. base (snd (Init example_lib no_env [] init_state)) = Some l
         \<and> kind (handler l) = JSON \<and> w (handler l) = Stdout
         \<and> opts (handler l) = \<lparr>opts_Level = Some LevelInfo, opts_AddSource = True\<rparr>)
   \<and> (\<exists>l. base (snd (Init example_lib (no_env(''GO_ENV'' \<mapsto> go '' Development'')) []
                        init_state)) = Some l
         \<and> kind (handler l) = Text \<and> w (handler l) = Stdout
         \<and> opts (handler l) = \<lparr>opts_Level = Some LevelDebug, opts_AddSource = True\<rparr>)
   \<and> (\<exists>l. base (snd (Init example_lib (no_env(''GO_ENV'' \<mapsto> go '' Development''))
                        [WithLevel (Some LevelWarn), WithFormat (go ''json''), WithWriter Discard,
                         WithLevel (Some LevelError)] init_state)) = Some l
         \<and> kind (handler l) = JSON \<and> w (handler l) = Discard
         \<and> opts (handler l) = \<lparr>opts_Level = Some LevelError, opts_AddSource = True\<rparr>)
   \<and> Init example_lib no_env [WithFormat (go ''text'')] ready_state = (None, ready_state)"
proof -
  have n: "\<not> once_done init_state" "once_done ready_state" "initErr ready_state = None"
    by (simp_all add: init_state_def ready_state_def)
  have norm: "ToLower example_lib (TrimSpace []) = []"
    "ToLower example_lib (TrimSpace (go '' Development'')) = go ''development''"
    "ToLower example_lib (TrimSpace (go ''text'')) = go ''text''"
    "ToLower example_lib (TrimSpace (go ''json'')) = go ''json''"
    by (simp_all add: ToLower_def TrimSpace_def ToLower_rune_def IsSpace_def go_simps)
  have d: "[] \<noteq> go ''dev''" "[] \<noteq> go ''development''" "[] \<noteq> go ''local''"
    "go ''json'' \<noteq> go ''text''" "go ''json'' \<noteq> go ''console''"
    by (simp_all add: go_simps)
  have g: "Getenv no_env ''ENV'' = []" "Getenv no_env ''GO_ENV'' = []" "Getenv no_env ''INFRA'' = []"
    "Getenv (no_env(''GO_ENV'' \<mapsto> go '' Development'')) ''ENV'' = []"
    "Getenv (no_env(''GO_ENV'' \<mapsto> go '' Development'')) ''GO_ENV'' = go '' Development''"
    "Getenv (no_env(''GO_ENV'' \<mapsto> go '' Development'')) ''INFRA'' = []"
    by (simp_all add: Getenv_def no_env_def)
  have a: "\<exists>l. base (snd (Init example_lib no_env [] init_state)) = Some l
         \<and> kind (handler l) = JSON \<and> w (handler l) = Stdout
         \<and> opts (handler l) = \<lparr>opts_Level = Some LevelInfo, opts_AddSource = True\<rparr>"
    using first_Init_options_override[of init_state example_lib no_env "[]"] n(1) g norm d
    by (auto simp: Let_def last_or_def)
  have b: "\<exists>l. base (snd (Init example_lib (no_env(''GO_ENV'' \<mapsto> go '' Development'')) []
                        init_state)) = Some l
         \<and> kind (handler l) = Text \<and> w (handler l) = Stdout
         \<and> opts (handler l) = \<lparr>opts_Level = Some LevelDebug, opts_AddSource = True\<rparr>"
    using first_Init_options_override[of init_state example_lib
        "no_env(''GO_ENV'' \<mapsto> go '' Development'')" "[]"] n(1) g norm d
    by (auto simp: Let_def last_or_def)
  have c: "\<exists>l. base (snd (Init example_lib (no_env(''GO_ENV'' \<mapsto> go '' Development''))
                        [WithLevel (Some LevelWarn), WithFormat (go ''json''), WithWriter Discard,
                         WithLevel (Some LevelError)] init_state)) = Some l
         \<and> kind (handler l) = JSON \<and> w (handler l) = Discard
         \<and> opts (handler l) = \<lparr>opts_Level = Some LevelError, opts_AddSource = True\<rparr>"
    using first_Init_options_override[of init_state example_lib
        "no_env(''GO_ENV'' \<mapsto> go '' Development'')"
        "[Supplied_Level (Some LevelWarn), Supplied_Format (go ''json''), Supplied_Writer Discard,
          Supplied_Level (Some LevelError)]"] n(1) g norm d
    by (auto simp: Let_def last_or_def)
  have e: "Init example_lib no_env [WithFormat (go ''text'')] ready_state = (None, ready_state)"
    using first_Init_options_override[of ready_state example_lib no_env "[]" "[WithFormat (go ''text'')]"]
      n(2,3) by simp
  from n(1,2) a b c e show ?thesis by blast
qed

text \<open>
  Options supplied to an \<^verbatim>\<open>Init\<close> that is not the first override nothing: after \<^verbatim>\<open>Init()\<close>
  with no variable set, \<^verbatim>\<open>Init(WithFormat("text"), WithLevel(LevelError))\<close> under \<^verbatim>\<open>ENV=dev\<close>
  returns nil and leaves the JSON logger at level Info in place.
\<close>

theorem later_Init_options_ignored:
  "Init example_lib no_env [] init_state = (None, ready_state)
   \<and> Init example_lib (no_env(''ENV'' \<mapsto> go ''dev''))
        [WithFormat (go ''text''), WithLevel (Some LevelError)] ready_state = (None, ready_state)
   \<and> base ready_state = Some json_stdout_logger
   \<and> kind (handler json_stdout_logger) = JSON
   \<and> opts_Level (opts (handler json_stdout_logger)) = Some LevelInfo"
  using example_logger_facts
  by (simp add: Init_def Let_def ready_state_def init_state_def json_stdout_logger_def)

text \<open>
  On the path through \<^verbatim>\<open>defaultConfig\<close> the three variables count only through their trimmed
  and lowered values, so that \<^verbatim>\<open>" DEV "\<close> does what \<^verbatim>\<open>"dev"\<close> does.
\<close>

lemma defaultConfig_normalised:
  "ToLower L (TrimSpace (Getenv e ''ENV'')) = ToLower L (TrimSpace (Getenv e' ''ENV''))
   \<and> ToLower L (TrimSpace (Getenv e ''GO_ENV'')) = ToLower L (TrimSpace (Getenv e' ''GO_ENV''))
   \<and> ToLower L (TrimSpace (Getenv e ''INFRA'')) = ToLower L (TrimSpace (Getenv e' ''INFRA''))
   \<longrightarrow> defaultConfig L e = defaultConfig L e'"
  by (simp add: defaultConfig_def)

lemma defaultConfig_normalised_witness:
  "defaultConfig example_lib (no_env(''ENV'' \<mapsto> go '' DEV '')) =
     defaultConfig example_lib (no_env(''ENV'' \<mapsto> go ''dev''))"
proof -
  have "ToLower example_lib (TrimSpace (go '' DEV '')) = ToLower example_lib (TrimSpace (go ''dev''))"
    by (simp add: ToLower_def TrimSpace_def ToLower_rune_def IsSpace_def go_simps)
  then show ?thesis
    using defaultConfig_normalised[of example_lib "no_env(''ENV'' \<mapsto> go '' DEV '')"
        "no_env(''ENV'' \<mapsto> go ''dev'')"]
    by (simp add: Getenv_def no_env_def)
qed

text \<open>
  C5. \<^verbatim>\<open>GetZapLogger\<close>, and \<^verbatim>\<open>GetSlogLogger\<close> as \<^verbatim>\<open>logger.go\<close> has it, compare \<^verbatim>\<open>INFRA\<close> with
  \<^verbatim>\<open>"local"\<close> as it stands: with \<^verbatim>\<open>INFRA\<close> set to \<^verbatim>\<open>" LOCAL "\<close> they give the production
  encoder and the Info level, and with \<^verbatim>\<open>"local"\<close> the development encoder and the Debug
  level, while \<^verbatim>\<open>defaultConfig\<close> gives Debug and \<^verbatim>\<open>text\<close> for \<^verbatim>\<open>" LOCAL "\<close> too.
\<close>

theorem GetZapLogger_compares_INFRA_exactly:
  "core_level (GetZapLogger L (no_env(''INFRA'' \<mapsto> go '' LOCAL '')) dir n) = zapcore_InfoLevel
   \<and> encoder (GetZapLogger L (no_env(''INFRA'' \<mapsto> go '' LOCAL '')) dir n) = Production
   \<and> core_level (GetZapLogger L (no_env(''INFRA'' \<mapsto> go ''local'')) dir n) = zapcore_DebugLevel
   \<and> encoder (GetZapLogger L (no_env(''INFRA'' \<mapsto> go ''local'')) dir n) = Development
   \<and> opts_Level (opts (handler (fst (GetSlogLogger_logger_go (no_env(''INFRA'' \<mapsto> go '' LOCAL '')) s))))
       = Some LevelInfo
   \<and> opts_Level (opts (handler (fst (GetSlogLogger_logger_go (no_env(''INFRA'' \<mapsto> go ''local'')) s))))
       = Some LevelDebug
   \<and> Level (defaultConfig L (no_env(''INFRA'' \<mapsto> go '' LOCAL ''))) = Some LevelDebug
   \<and> Format (defaultConfig L (no_env(''INFRA'' \<mapsto> go '' LOCAL ''))) = go ''text''"
proof -
  have g: "Getenv (no_env(''INFRA'' \<mapsto> go '' LOCAL '')) ''INFRA'' = go '' LOCAL ''"
    "Getenv (no_env(''INFRA'' \<mapsto> go ''local'')) ''INFRA'' = go ''local''"
    "Getenv (no_env(''INFRA'' \<mapsto> go '' LOCAL '')) ''ENV'' = []"
    "Getenv (no_env(''INFRA'' \<mapsto> go '' LOCAL '')) ''GO_ENV'' = []"
    by (simp_all add: Getenv_def no_env_def)
  have ne: "go '' LOCAL '' \<noteq> go ''local''"
    by (simp add: go_simps)
  have lo: "ToLower L (TrimSpace (go '' LOCAL '')) = go ''local''"
    by (simp add: ToLower_def TrimSpace_def ToLower_rune_def IsSpace_def go_simps)
  have zap: "core_level (GetZapLogger L (no_env(''INFRA'' \<mapsto> go '' LOCAL '')) dir n) = zapcore_InfoLevel"
    "encoder (GetZapLogger L (no_env(''INFRA'' \<mapsto> go '' LOCAL '')) dir n) = Production"
    "core_level (GetZapLogger L (no_env(''INFRA'' \<mapsto> go ''local'')) dir n) = zapcore_DebugLevel"
    "encoder (GetZapLogger L (no_env(''INFRA'' \<mapsto> go ''local'')) dir n) = Development"
    using g ne by (simp_all add: GetZapLogger_def Named_def Let_def)
  have old: "opts_Level (opts (handler (fst (GetSlogLogger_logger_go (no_env(''INFRA'' \<mapsto> go '' LOCAL '')) s))))
       = Some LevelInfo"
    "opts_Level (opts (handler (fst (GetSlogLogger_logger_go (no_env(''INFRA'' \<mapsto> go ''local'')) s))))
       = Some LevelDebug"
    using g ne
    by (simp_all add: GetSlogLogger_logger_go_def Let_def slog_New_def NewTextHandler_def
        handlerOptions_def)
  have new: "Level (defaultConfig L (no_env(''INFRA'' \<mapsto> go '' LOCAL ''))) = Some LevelDebug"
    "Format (defaultConfig L (no_env(''INFRA'' \<mapsto> go '' LOCAL ''))) = go ''text''"
    using g lo by (simp_all add: defaultConfig_def Let_def)
  from zap old new show ?thesis by blast
qed

text \<open>
  C6. \<^verbatim>\<open>build\<close> always returns a logger and no error. Its handler is the text handler when
  the format, trimmed and lowered, is \<^verbatim>\<open>text\<close> or \<^verbatim>\<open>console\<close>, and the JSON handler for
  \<^verbatim>\<open>json\<close> and for every other value, the empty one included. The handler writes to the
  writer of the configuration and takes its level and its source flag from it.
\<close>

theorem build_selects_handler:
  "\<exists>l. build L c = (Some l, None)
     \<and> kind (handler l) =
         (if ToLower L (TrimSpace (Format c)) = go ''text''
             \<or> ToLower L (TrimSpace (Format c)) = go ''console'' then Text else JSON)
     \<and> (ToLower L (TrimSpace (Format c)) = go ''json'' \<longrightarrow> kind (handler l) = JSON)
     \<and> w (handler l) = Writer c
     \<and> opts (handler l) = \<lparr>opts_Level = Level c, opts_AddSource = AddSource c\<rparr>
     \<and> preformatted (handler l) = []"
  by (simp add: build_def Let_def slog_New_def NewJSONHandler_def NewTextHandler_def
      handlerOptions_def go_simps)

theorem build_selects_handler_witness:
  "(\<exists>l. build example_lib \<lparr>Level = None, Format = go '' JSON'', Writer = Discard, AddSource = False\<rparr>
          = (Some l, None) \<and> kind (handler l) = JSON)
   \<and> (\<exists>l. build example_lib \<lparr>Level = None, Format = go ''Console '', Writer = Discard, AddSource = False\<rparr>
          = (Some l, None) \<and> kind (handler l) = Text)
   \<and> (\<exists>l. build example_lib \<lparr>Level = None, Format = go ''yaml'', Writer = Discard, AddSource = False\<rparr>
          = (Some l, None) \<and> kind (handler l) = JSON)
   \<and> (\<exists>l. build example_lib \<lparr>Level = None, Format = [], Writer = Discard, AddSource = False\<rparr>
          = (Some l, None) \<and> kind (handler l) = JSON)"
proof -
  have n: "ToLower example_lib (TrimSpace (go '' JSON'')) = go ''json''"
    "ToLower example_lib (TrimSpace (go ''Console '')) = go ''console''"
    "ToLower example_lib (TrimSpace (go ''yaml'')) = go ''yaml''"
    "ToLower example_lib (TrimSpace []) = []"
    by (simp_all add: ToLower_def TrimSpace_def ToLower_rune_def IsSpace_def go_simps)
  have d: "go ''json'' \<noteq> go ''text''" "go ''json'' \<noteq> go ''console''"
    "go ''yaml'' \<noteq> go ''text''" "go ''yaml'' \<noteq> go ''console''"
    "[] \<noteq> go ''text''" "[] \<noteq> go ''console''"
    by (simp_all add: go_simps)
  have "\<exists>l. build example_lib \<lparr>Level = None, Format = go '' JSON'', Writer = Discard, AddSource = False\<rparr>
          = (Some l, None) \<and> kind (handler l) = JSON"
    using build_selects_handler[of example_lib
        "\<lparr>Level = None, Format = go '' JSON'', Writer = Discard, AddSource = False\<rparr>"] n(1)
    by auto
  moreover
  have "\<exists>l. build example_lib \<lparr>Level = None, Format = go ''Console '', Writer = Discard, AddSource = False\<rparr>
          = (Some l, None) \<and> kind (handler l) = Text"
    using build_selects_handler[of example_lib
        "\<lparr>Level = None, Format = go ''Console '', Writer = Discard, AddSource = False\<rparr>"] n(2)
    by auto
  moreover
  have "\<exists>l. build example_lib \<lparr>Level = None, Format = go ''yaml'', Writer = Discard, AddSource = False\<rparr>
          = (Some l, None) \<and> kind (handler l) = JSON"
    using build_selects_handler[of example_lib
        "\<lparr>Level = None, Format = go ''yaml'', Writer = Discard, AddSource = False\<rparr>"] n(3) d(3,4)
    by auto
  moreover
  have "\<exists>l. build example_lib \<lparr>Level = None, Format = [], Writer = Discard, AddSource = False\<rparr>
          = (Some l, None) \<and> kind (handler l) = JSON"
    using build_selects_handler[of example_lib
        "\<lparr>Level = None, Format = [], Writer = Discard, AddSource = False\<rparr>"] n(4) d(5,6)
    by auto
  ultimately show ?thesis by blast
qed

subsection \<open>The context carrier\<close>

text \<open>
  C7. For every context and every logger (a \<^verbatim>\<open>Logger\<close> value that is not nil),
  \<^verbatim>\<open>LoggerFromContext\<close> on the context that \<^verbatim>\<open>WithLogger\<close> returns gives that logger and no
  error. The context returned is a new one with the given context, as it was, for its
  parent: every other key is looked up in the given context, which the attachment does
  not touch.
\<close>

theorem WithLogger_round_trip:
  "LoggerFromContext (WithLogger ctx (Some l)) = (Some l, None)
   \<and> WithLogger ctx (Some l) = valueCtx ctx contextLoggerKey (LoggerValue l)
   \<and> (\<forall>k. k \<noteq> contextLoggerKey \<longrightarrow> Value (WithLogger ctx (Some l)) k = Value ctx k)"
  by (simp add: LoggerFromContext_def WithLogger_def context_WithValue_def to_any_def)

theorem WithLogger_round_trip_witness:
  "LoggerFromContext (WithLogger (valueCtx Background (otherKey 1) (OtherValue 2)) (Some (5::nat)))
     = (Some 5, None)
   \<and> otherKey 1 \<noteq> contextLoggerKey
   \<and> Value (WithLogger (valueCtx Background (otherKey 1) (OtherValue 2)) (Some (5::nat))) (otherKey 1)
       = OtherValue 2
   \<and> LoggerFromContext (valueCtx Background (otherKey 1) (OtherValue 2) :: nat Context)
       = (None, Some ErrNoLoggerInContext)"
  using WithLogger_round_trip[of "valueCtx Background (otherKey 1) (OtherValue 2)" "5::nat"]
  by (simp add: contextLoggerKey_def LoggerFromContext_def)

text \<open>A nil \<^verbatim>\<open>Logger\<close> is stored as a nil value, which is no logger to \<^verbatim>\<open>LoggerFromContext\<close>.\<close>

lemma WithLogger_nil:
  "LoggerFromContext (WithLogger ctx None) = (None, Some ErrNoLoggerInContext)"
  by (simp add: LoggerFromContext_def WithLogger_def context_WithValue_def to_any_def)

text \<open>
  C8. \<^verbatim>\<open>LoggerFromContext\<close> returns the logger and no error exactly when the value that the
  context holds for the package's key is a logger; in every other case (no value, a nil
  value, a value of another type) it returns no logger and \<^verbatim>\<open>ErrNoLoggerInContext\<close>, the
  error whose text is \<^verbatim>\<open>no logger found in context\<close>.
\<close>

theorem LoggerFromContext_result:
  "((\<exists>l. Value ctx contextLoggerKey = LoggerValue l \<and> LoggerFromContext ctx = (Some l, None))
    \<or> ((\<forall>l. Value ctx contextLoggerKey \<noteq> LoggerValue l)
        \<and> LoggerFromContext ctx = (None, Some ErrNoLoggerInContext)))
   \<and> err_Error ErrNoLoggerInContext = go ''no logger found in context''"
  by (cases "Value ctx contextLoggerKey")
     (simp_all add: LoggerFromContext_def ErrNoLoggerInContext_def NO_LOGGER_FOUND_def err_Error_def)

theorem LoggerFromContext_result_witness:
  "LoggerFromContext (valueCtx Background contextLoggerKey (OtherValue 3) :: nat Context)
     = (None, Some ErrNoLoggerInContext)
   \<and> LoggerFromContext (Background :: nat Context) = (None, Some ErrNoLoggerInContext)
   \<and> LoggerFromContext
        (valueCtx (valueCtx Background contextLoggerKey (LoggerValue (7::nat))) (otherKey 0) NilValue)
     = (Some 7, None)"
  using LoggerFromContext_result[of "valueCtx Background contextLoggerKey (OtherValue 3) :: nat Context"]
    LoggerFromContext_result[of "Background :: nat Context"]
    LoggerFromContext_result[of
      "valueCtx (valueCtx Background contextLoggerKey (LoggerValue (7::nat))) (otherKey 0) NilValue"]
  by (simp add: contextLoggerKey_def)

subsection \<open>The log file\<close>

text \<open>
  C9 (as amended). The file name of the rotating file is \<^verbatim>\<open>logs/app.log\<close> when the
  directory is empty and \<^verbatim>\<open>filepath.Join\<close> of the directory and \<^verbatim>\<open>logs/app.log\<close> otherwise: in
  the writer of \<^verbatim>\<open>GetFileWriter\<close>, in the file core of \<^verbatim>\<open>GetZapLogger\<close>, in the logger of the
  earlier \<^verbatim>\<open>GetSlogMultiLogger\<close> of \<^verbatim>\<open>logger.go\<close>, and in the logger that \<^verbatim>\<open>GetSlogFileLogger\<close>
  and \<^verbatim>\<open>GetSlogMultiLogger\<close> construct when no logger is cached and \<^verbatim>\<open>once\<close> has not run; none
  of them returns an error or panics. When a logger is cached, \<^verbatim>\<open>GetSlogFileLogger\<close> and
  \<^verbatim>\<open>GetSlogMultiLogger\<close> return it as it is and make no file sink, whatever the directory.
  With the Unix \<^verbatim>\<open>filepath.Join\<close>, a directory made of ordinary names, relative or rooted,
  is a prefix of the file name: the name is the directory, a slash and \<^verbatim>\<open>logs/app.log\<close>.
\<close>

theorem log_file_path_default:
  "(\<exists>f. GetFileWriter L dir = Lumberjack f
        \<and> Filename f = (if dir = [] then go ''logs/app.log''
                        else filepath_Join L dir (go ''logs/app.log'')))
   \<and> Filename (file_core (GetZapLogger L e dir n)) =
       (if dir = [] then go ''logs/app.log'' else filepath_Join L dir (go ''logs/app.log''))
   \<and> w (handler (fst (GetSlogMultiLogger_logger_go L e dir s))) =
       MultiWriter [Stdout, GetFileWriter L dir]
   \<and> (base s = None \<and> \<not> once_done s \<longrightarrow>
        (\<exists>l s'. GetSlogFileLogger L e dir s = Inr (Some l, s')
             \<and> w (handler l) = GetFileWriter L dir)
      \<and> (\<exists>l s'. GetSlogMultiLogger L e dir s = Inr (Some l, s')
             \<and> w (handler l) = MultiWriter [Stdout, GetFileWriter L dir]))
   \<and> (base s = Some c \<longrightarrow>
        GetSlogFileLogger L e dir s = Inr (Some c, s)
      \<and> GetSlogMultiLogger L e dir s = Inr (Some c, s))
   \<and> (filepath_Join L = unix_Join \<and> cs \<noteq> [] \<and> (\<forall>x\<in>set cs. plain_name x) \<longrightarrow>
        filepath_Join L (join_slash cs) (go ''logs/app.log'')
          = join_slash cs @ go ''/logs/app.log''
      \<and> filepath_Join L (47 # join_slash cs) (go ''logs/app.log'')
          = 47 # join_slash cs @ go ''/logs/app.log'')"
proof (intro conjI impI)
  show "\<exists>f. GetFileWriter L dir = Lumberjack f
        \<and> Filename f = (if dir = [] then go ''logs/app.log''
                        else filepath_Join L dir (go ''logs/app.log''))"
    by (simp add: GetFileWriter_def DEFAULT_LOG_FILE_PATH_def)
next
  show "Filename (file_core (GetZapLogger L e dir n)) =
       (if dir = [] then go ''logs/app.log'' else filepath_Join L dir (go ''logs/app.log''))"
    by (simp add: GetZapLogger_def DEFAULT_LOG_FILE_PATH_def Named_def Let_def)
next
  show "w (handler (fst (GetSlogMultiLogger_logger_go L e dir s))) =
       MultiWriter [Stdout, GetFileWriter L dir]"
    by (simp add: GetSlogMultiLogger_logger_go_def Let_def slog_New_def NewTextHandler_def
        io_MultiWriter_def GetFileWriter_def)
next
  assume a: "base s = None \<and> \<not> once_done s"
  obtain l where l: "build L (resolve L e [WithWriter (GetFileWriter L dir)]) = (Some l, None)"
    "w (handler l) = Writer (resolve L e [WithWriter (GetFileWriter L dir)])"
    using build_handler_writer by blast
  have "w (handler l) = GetFileWriter L dir"
    using l(2) by (simp add: resolve_def WithWriter_def)
  then show "\<exists>l s'. GetSlogFileLogger L e dir s = Inr (Some l, s')
             \<and> w (handler l) = GetFileWriter L dir"
    using a l(1)
    by (simp add: GetSlogFileLogger_def Init_def Let_def after_Init_def SetDefault_def)
next
  assume a: "base s = None \<and> \<not> once_done s"
  obtain l where l:
    "build L (resolve L e [WithWriter (io_MultiWriter [Stdout, GetFileWriter L dir])]) = (Some l, None)"
    "w (handler l) = Writer (resolve L e [WithWriter (io_MultiWriter [Stdout, GetFileWriter L dir])])"
    using build_handler_writer by blast
  have "w (handler l) = MultiWriter [Stdout, GetFileWriter L dir]"
    using l(2) by (simp add: resolve_def WithWriter_def io_MultiWriter_def GetFileWriter_def)
  then show "\<exists>l s'. GetSlogMultiLogger L e dir s = Inr (Some l, s')
             \<and> w (handler l) = MultiWriter [Stdout, GetFileWriter L dir]"
    using a l(1)
    by (simp add: GetSlogMultiLogger_def Init_def Let_def after_Init_def SetDefault_def)
next
  assume "base s = Some c"
  then show "GetSlogFileLogger L e dir s = Inr (Some c, s)"
    "GetSlogMultiLogger L e dir s = Inr (Some c, s)"
    by (simp_all add: GetSlogFileLogger_def GetSlogMultiLogger_def)
next
  assume u: "filepath_Join L = unix_Join \<and> cs \<noteq> [] \<and> (\<forall>x\<in>set cs. plain_name x)"
  then show "filepath_Join L (join_slash cs) (go ''logs/app.log'')
          = join_slash cs @ go ''/logs/app.log''"
    "filepath_Join L (47 # join_slash cs) (go ''logs/app.log'')
          = 47 # join_slash cs @ go ''/logs/app.log''"
    using unix_Join_plain[of cs] by simp_all
qed

theorem log_file_path_default_witness:
  "base init_state = None \<and> \<not> once_done init_state
   \<and> base ready_state = Some json_stdout_logger
   \<and> filepath_Join example_lib = unix_Join
   \<and> [go ''var'', go ''data''] \<noteq> [] \<and> plain_name (go ''var'') \<and> plain_name (go ''data'')
   \<and> GetFileWriter example_lib [] =
       Lumberjack \<lparr>Filename = go ''logs/app.log'', MaxSize = 100, MaxBackups = 5, MaxAge = 28,
                   Compress = True\<rparr>
   \<and> GetFileWriter example_lib (go ''/var/data'') =
       Lumberjack \<lparr>Filename = go ''/var/data/logs/app.log'', MaxSize = 100, MaxBackups = 5,
                   MaxAge = 28, Compress = True\<rparr>
   \<and> (\<exists>l s'. GetSlogFileLogger example_lib no_env [] init_state = Inr (Some l, s')
         \<and> w (handler l) =
             Lumberjack \<lparr>Filename = go ''logs/app.log'', MaxSize = 100, MaxBackups = 5,
                         MaxAge = 28, Compress = True\<rparr>)
   \<and> (\<exists>l s'. GetSlogMultiLogger example_lib no_env (go ''/var/data'') init_state = Inr (Some l, s')
         \<and> w (handler l) =
             MultiWriter [Stdout,
               Lumberjack \<lparr>Filename = go ''/var/data/logs/app.log'', MaxSize = 100, MaxBackups = 5,
                           MaxAge = 28, Compress = True\<rparr>])
   \<and> GetSlogFileLogger example_lib no_env (go ''/var/data'') ready_state
       = Inr (Some json_stdout_logger, ready_state)
   \<and> Filename (file_core (GetZapLogger example_lib no_env [] (go ''svc''))) = go ''logs/app.log''"
proof -
  have i: "base init_state = None \<and> \<not> once_done init_state"
    by (simp add: init_state_simps)
  have r: "base ready_state = Some json_stdout_logger"
    by (simp add: ready_state_def)
  have u: "filepath_Join example_lib = unix_Join"
    by (simp add: example_lib_def)
  have pl: "[go ''var'', go ''data''] \<noteq> []" "plain_name (go ''var'')" "plain_name (go ''data'')"
    by (simp_all add: plain_name_def go_simps)
  have d: "go ''/var/data'' = 47 # join_slash [go ''var'', go ''data'']"
    "go ''/var/data/logs/app.log'' = 47 # join_slash [go ''var'', go ''data''] @ go ''/logs/app.log''"
    "go ''/var/data'' \<noteq> []"
    by (simp_all add: go_simps)
  have j: "filepath_Join example_lib (go ''/var/data'') (go ''logs/app.log'')
             = go ''/var/data/logs/app.log''"
    using log_file_path_default[of example_lib "[]" no_env "[]" init_state json_stdout_logger
        "[go ''var'', go ''data'']"] u pl
    unfolding d(1,2) by simp
  have f0: "\<exists>f. GetFileWriter example_lib [] = Lumberjack f \<and> Filename f = go ''logs/app.log''"
    and fl: "\<exists>l s'. GetSlogFileLogger example_lib no_env [] init_state = Inr (Some l, s')
         \<and> w (handler l) = GetFileWriter example_lib []"
    and zap: "Filename (file_core (GetZapLogger example_lib no_env [] (go ''svc''))) = go ''logs/app.log''"
    using log_file_path_default[of example_lib "[]" no_env "go ''svc''" init_state] i
    by simp_all
  have f1: "\<exists>f. GetFileWriter example_lib (go ''/var/data'') = Lumberjack f
         \<and> Filename f = go ''/var/data/logs/app.log''"
    and multi: "\<exists>l s'. GetSlogMultiLogger example_lib no_env (go ''/var/data'') init_state
           = Inr (Some l, s')
         \<and> w (handler l) = MultiWriter [Stdout, GetFileWriter example_lib (go ''/var/data'')]"
    using log_file_path_default[of example_lib "go ''/var/data''" no_env "go ''svc''" init_state] i
      j d(3)
    by simp_all
  have cached: "GetSlogFileLogger example_lib no_env (go ''/var/data'') ready_state
       = Inr (Some json_stdout_logger, ready_state)"
    using log_file_path_default[of example_lib "go ''/var/data''" no_env "[]" ready_state
        json_stdout_logger] r
    by simp
  have w0: "GetFileWriter example_lib [] =
       Lumberjack \<lparr>Filename = go ''logs/app.log'', MaxSize = 100, MaxBackups = 5, MaxAge = 28,
                   Compress = True\<rparr>"
    using f0 by (auto simp: GetFileWriter_def)
  have w1: "GetFileWriter example_lib (go ''/var/data'') =
       Lumberjack \<lparr>Filename = go ''/var/data/logs/app.log'', MaxSize = 100, MaxBackups = 5,
                   MaxAge = 28, Compress = True\<rparr>"
    using f1 by (auto simp: GetFileWriter_def)
  from i r u pl w0 w1 fl multi cached zap show ?thesis by simp
qed

text \<open>
  With a logger cached the directory argument resolves no file at all: after
  \<^verbatim>\<open>GetSlogLogger()\<close>, \<^verbatim>\<open>GetSlogFileLogger("")\<close> and \<^verbatim>\<open>GetSlogMultiLogger("")\<close> return the cached
  logger, which writes to standard output only.
\<close>

theorem cached_logger_has_no_file_sink:
  "GetSlogLogger example_lib no_env init_state
     = Inr (Some json_stdout_logger, ready_state\<lparr>slog_default := Some json_stdout_logger\<rparr>)
   \<and> GetSlogFileLogger example_lib no_env [] (ready_state\<lparr>slog_default := Some json_stdout_logger\<rparr>)
     = Inr (Some json_stdout_logger, ready_state\<lparr>slog_default := Some json_stdout_logger\<rparr>)
   \<and> GetSlogMultiLogger example_lib no_env [] (ready_state\<lparr>slog_default := Some json_stdout_logger\<rparr>)
     = Inr (Some json_stdout_logger, ready_state\<lparr>slog_default := Some json_stdout_logger\<rparr>)
   \<and> w (handler json_stdout_logger) = Stdout"
  using example_logger_facts
  by (simp add: GetSlogLogger_def GetSlogFileLogger_def GetSlogMultiLogger_def Init_def Let_def
      after_Init_def SetDefault_def ready_state_def init_state_def json_stdout_logger_def)

subsection \<open>Nil pointers\<close>

text \<open>
  C10. \<^verbatim>\<open>NewAppLogger\<close> panics on a nil configuration, and \<^verbatim>\<open>WithAttrs\<close> with attributes panics
  while \<^verbatim>\<open>base\<close> is nil, as it is before any initialization.
\<close>

theorem nil_pointer_panics:
  "NewAppLogger None = Inl NilPointerDereference
   \<and> WithAttrs [go ''k'', go ''v''] init_state = Inl NilPointerDereference"
  by (simp add: NewAppLogger_def WithAttrs_def slog_With_def init_state_def go_simps)

end
